theory Spec2Isabelle
  imports Complex_Main
begin

section \<open>Data model\<close>

text \<open>
  The program reads PagerDuty incidents, turns every incident that was not merged into
  another one into a spreadsheet row, and writes the rows to a CSV file. This theory
  embeds \<^verbatim>\<open>generate-documents.js\<close>: the pagination loop \<^verbatim>\<open>get_incidents\<close>, the
  transformer \<^verbatim>\<open>process_incidents\<close> and the functions it calls.

  JavaScript numbers are modelled exactly: integers as \<^typ>\<open>int\<close>, quotients as
  \<^typ>\<open>rat\<close>. The program's double arithmetic agrees with this for timestamps with
  years of four digits: a quotient that the program rounds up is either whole, and then
  computed exactly, or at least \<open>1/60000\<close> away from a whole number, which is far more
  than the rounding error of its divisions. A timestamp string enters the program only through the library calls
  \<^verbatim>\<open>Date.parse(s)\<close>, \<^verbatim>\<open>moment(s).hour()\<close>, \<^verbatim>\<open>moment(s).day()\<close> and
  \<^verbatim>\<open>moment(s).format(...)\<close>, so a parseable timestamp is the record of what these
  calls return for it. Unparseable timestamps (for which the calls return \<^verbatim>\<open>NaN\<close>) are
  outside this type.
\<close>

record timestamp =
  Date_parse :: int         \<comment> \<open>\<^verbatim>\<open>Date.parse(s)\<close>: milliseconds since the epoch\<close>
  moment_hour :: int        \<comment> \<open>\<^verbatim>\<open>moment(s).hour()\<close>\<close>
  moment_day :: int         \<comment> \<open>\<^verbatim>\<open>moment(s).day()\<close>: 0 is Sunday, 6 is Saturday\<close>
  format_date :: string     \<comment> \<open>\<^verbatim>\<open>moment(s).format("YYYY-MM-DD")\<close>\<close>
  format_time :: string     \<comment> \<open>\<^verbatim>\<open>moment(s).format("HH:mm:ss")\<close>\<close>

record reference =
  summary :: string

record resolve_reason =
  reason_type :: string     \<comment> \<open>the field \<^verbatim>\<open>type\<close>\<close>

text \<open>
  The fields of an incident that the program reads. In the API's schema only
  \<^verbatim>\<open>resolve_reason\<close> may be \<^verbatim>\<open>null\<close>, which is the one field the code tests for it.
\<close>

record incident =
  created_at :: timestamp
  last_status_change_at :: timestamp
  last_status_change_by :: reference
  service :: reference
  urgency :: string
  title :: string
  html_url :: string
  resolve_reason :: "resolve_reason option"

text \<open>A cell of an output row: a string, a number or \<^verbatim>\<open>null\<close>.\<close>

datatype cell = Str string | Num int | Null

text \<open>A page of the incident listing: \<^verbatim>\<open>page['incidents']\<close> and \<^verbatim>\<open>page['more']\<close>.\<close>

record 'i page =
  page_incidents :: "'i list"
  page_more :: bool

section \<open>Constants\<close>

definition MOMENT_SATURDAY :: int where
  "MOMENT_SATURDAY = 6"

definition MOMENT_SUNDAY :: int where
  "MOMENT_SUNDAY = 0"

section \<open>Urgency, duration and hours earned\<close>

definition get_incident_urgency :: "string \<Rightarrow> string" where
  "get_incident_urgency u =
     (if u = ''high'' then ''critical alarm''
      else if u = ''low'' then ''non-critical alarm''
      else ''unknown'')"

text \<open>\<^verbatim>\<open>Math.ceil((Date.parse(end_date) - Date.parse(start_date)) / 1000 / 60)\<close>\<close>

definition get_incident_duration :: "timestamp \<Rightarrow> timestamp \<Rightarrow> int" where
  "get_incident_duration start_date end_date =
     \<lceil>(of_int (Date_parse end_date - Date_parse start_date) :: rat) / 1000 / 60\<rceil>"

text \<open>
  The function returns early twice; the three increments of \<^verbatim>\<open>hours_earned\<close> that
  follow are the nested \<^theory_text>\<open>let\<close>s of the last branch.
\<close>

definition get_hours_earned :: "timestamp \<Rightarrow> timestamp \<Rightarrow> string \<Rightarrow> int" where
  "get_hours_earned start_date end_date u =
     (let hours_earned = 0;
          start_hour = moment_hour start_date;
          duration_hours = \<lceil>(of_int (get_incident_duration start_date end_date) :: rat) / 60\<rceil>;
          is_weekend = (moment_day start_date \<in> set [MOMENT_SATURDAY, MOMENT_SUNDAY])
      in if get_incident_urgency u \<noteq> ''critical alarm'' then hours_earned
         else if start_hour \<ge> 9 \<and> start_hour \<le> 17 \<and> \<not> is_weekend then hours_earned
         else
           let hours_earned = hours_earned + 1;
               hours_earned = (if start_hour \<le> 4 \<or> start_hour \<ge> 22
                               then hours_earned + 1 else hours_earned);
               hours_earned = hours_earned + max 0 ((duration_hours - 1) * 2)
           in hours_earned)"

section \<open>Number formatting\<close>

text \<open>The decimal digits of a natural number, most significant first.\<close>

fun digits :: "nat \<Rightarrow> string" where
  "digits n =
     (if n < 10 then [''0123456789'' ! n]
      else digits (n div 10) @ [''0123456789'' ! (n mod 10)])"

declare digits.simps [simp del]

text \<open>
  \<^verbatim>\<open>Number.prototype.toFixed(f)\<close> as ECMAScript defines it, for the finite values below
  \<open>10\<^sup>2\<^sup>1\<close> that a duration can take: \<open>n\<close> is the integer nearest to \<open>x \<cdot> 10\<^sup>f\<close>, the
  larger one on a tie; its digits are padded with zeros to \<open>f + 1\<close> places and the point
  is put before the last \<open>f\<close> of them.
\<close>

definition toFixed :: "rat \<Rightarrow> nat \<Rightarrow> string" where
  "toFixed x f =
     (let s = (if x < 0 then ''-'' else '''');
          x = (if x < 0 then - x else x);
          n = nat \<lfloor>x * 10 ^ f + 1 / 2\<rfloor>;
          m = digits n;
          m = (if length m \<le> f then replicate (f + 1 - length m) (CHR ''0'') @ m else m);
          k = length m
      in if f \<noteq> 0 then s @ take (k - f) m @ ''.'' @ drop (k - f) m else s @ m)"

section \<open>The transformer\<close>

text \<open>The test that makes \<^verbatim>\<open>forEach\<close>'s callback return before it builds a row.\<close>

definition is_merged :: "incident \<Rightarrow> bool" where
  "is_merged i =
     (case resolve_reason i of
        None \<Rightarrow> False
      | Some r \<Rightarrow> reason_type r = ''merge_resolve_reason'')"

text \<open>The rest of the callback's body: the row built for an incident.\<close>

definition processed_incident :: "incident \<Rightarrow> cell list" where
  "processed_incident i =
     (let start_date = created_at i;
          end_date = last_status_change_at i;
          resolver = summary (last_status_change_by i);
          resolver = (if resolver = summary (service i) then ''Auto-resolved'' else resolver)
      in [Str resolver,
          Str (format_date start_date),
          Str (format_date end_date),
          Str (get_incident_urgency (urgency i)),
          Num (get_hours_earned (created_at i) (last_status_change_at i) (urgency i)),
          Null,
          Str (format_time start_date),
          Str (format_time end_date),
          Str (toFixed
                 (of_int (get_incident_duration (created_at i) (last_status_change_at i)) / 60) 2),
          Null, Null, Null, Null, Null,
          Str (summary (service i)),
          Str (title i),
          Str (html_url i)])"

text \<open>
  \<^verbatim>\<open>incidents.forEach\<close> with \<^verbatim>\<open>processed_incidents.push\<close>: the second argument is the
  array built so far.
\<close>

primrec for_each :: "incident list \<Rightarrow> cell list list \<Rightarrow> cell list list" where
  "for_each [] processed_incidents = processed_incidents"
| "for_each (i # rest) processed_incidents =
     (if is_merged i then for_each rest processed_incidents
      else for_each rest (processed_incidents @ [processed_incident i]))"

definition process_incidents :: "incident list \<Rightarrow> cell list list" where
  "process_incidents incidents = for_each incidents []"

section \<open>The retriever\<close>

text \<open>
  \<^verbatim>\<open>get_incident_page\<close> sends one request and returns the parsed response. It is the
  program's only contact with the server, so it is a parameter \<open>fetch\<close> of the model: a
  function of the four arguments of \<^verbatim>\<open>get_incident_page\<close>. No two requests of one run
  have the same offset, so a function describes every sequence of responses. The model
  also records the requests it sends, as pairs of offset and limit.

  The \<^verbatim>\<open>while\<close> loop has no bound: it does not return when every page has
  \<^verbatim>\<open>more\<close> set, and then the model's value is \<^const>\<open>None\<close>.
\<close>

partial_function (option) while_more_pages ::
  "('k \<Rightarrow> 'd \<Rightarrow> nat \<Rightarrow> nat \<Rightarrow> 'i page) \<Rightarrow> 'k \<Rightarrow> 'd \<Rightarrow> nat \<Rightarrow>
   bool \<Rightarrow> nat \<Rightarrow> 'i list \<Rightarrow> (nat \<times> nat) list \<Rightarrow> ('i list \<times> (nat \<times> nat) list) option"
where
  "while_more_pages fetch api_key start_date limit more_pages page_num incidents sent =
     (if more_pages then
        (let page = fetch api_key start_date (page_num * limit) limit
         in while_more_pages fetch api_key start_date limit
              (page_more page) (page_num + 1) (incidents @ page_incidents page)
              (sent @ [(page_num * limit, limit)]))
      else Some (incidents, sent))"

definition get_incidents ::
  "('k \<Rightarrow> 'd \<Rightarrow> nat \<Rightarrow> nat \<Rightarrow> 'i page) \<Rightarrow> 'k \<Rightarrow> 'd \<Rightarrow> ('i list \<times> (nat \<times> nat) list) option" where
  "get_incidents fetch api_key start_date =
     while_more_pages fetch api_key start_date 50 True 0 [] []"

section \<open>Example inputs\<close>

text \<open>
  The timestamp \<^verbatim>\<open>2021-03-01Thh:mm:ss-07:00\<close>, a Monday, as the libraries report it on
  a machine in that zone: midnight of that day is 1614582000 seconds after the epoch.
\<close>

definition pad2 :: "nat \<Rightarrow> string" where
  "pad2 n = (if n < 10 then ''0'' @ digits n else digits n)"

definition monday_at :: "nat \<Rightarrow> nat \<Rightarrow> nat \<Rightarrow> timestamp" where
  "monday_at h m s =
     \<lparr>Date_parse = 1614582000000 + ((int h * 60 + int m) * 60 + int s) * 1000,
      moment_hour = int h,
      moment_day = 1,
      format_date = ''2021-03-01'',
      format_time = pad2 h @ '':'' @ pad2 m @ '':'' @ pad2 s\<rparr>"

text \<open>
  A critical incident that its own service resolved after 40 minutes, the same incident
  merged into another one, and the same incident closed by a user whose name is the
  label the program uses for automatic resolution.
\<close>

definition example_incident :: incident where
  "example_incident =
     \<lparr>created_at = monday_at 2 0 0,
      last_status_change_at = monday_at 2 40 0,
      last_status_change_by = \<lparr>summary = ''Payments API''\<rparr>,
      service = \<lparr>summary = ''Payments API''\<rparr>,
      urgency = ''high'',
      title = ''Disk full'',
      html_url = ''https://example.pagerduty.com/incidents/P1'',
      resolve_reason = None\<rparr>"

definition merged_incident :: incident where
  "merged_incident =
     example_incident\<lparr>resolve_reason := Some \<lparr>reason_type = ''merge_resolve_reason''\<rparr>\<rparr>"

definition namesake_incident :: incident where
  "namesake_incident =
     example_incident\<lparr>last_status_change_by := \<lparr>summary = ''Auto-resolved''\<rparr>\<rparr>"

text \<open>A server with 112 incidents, here numbers, in pages of 50.\<close>

definition three_pages :: "unit \<Rightarrow> unit \<Rightarrow> nat \<Rightarrow> nat \<Rightarrow> nat page" where
  "three_pages api_key since offset limit =
     \<lparr>page_incidents = [offset ..< min (offset + limit) 112],
      page_more = (offset + limit < 112)\<rparr>"

section \<open>Arithmetic of the two roundings\<close>

lemma get_incident_duration_div:
  "get_incident_duration s e = - ((Date_parse s - Date_parse e) div 60000)"
proof -
  have "(of_int (Date_parse e - Date_parse s) :: rat) / 1000 / 60 =
        of_int (Date_parse e - Date_parse s) / of_int 60000"
    by simp
  then show ?thesis
    unfolding get_incident_duration_def by (simp only: ceiling_divide_eq_div)
qed

lemma duration_hours_div: "\<lceil>(of_int d :: rat) / 60\<rceil> = - ((- d) div 60)"
proof -
  have "(of_int d :: rat) / 60 = of_int d / of_int 60"
    by simp
  then show ?thesis
    by (simp only: ceiling_divide_eq_div)
qed

lemma monday_duration:
  "get_incident_duration (monday_at h m s) (monday_at h' m' s') =
     - ((((int h * 60 + int m) * 60 + int s) * 1000
         - ((int h' * 60 + int m') * 60 + int s') * 1000) div 60000)"
  by (simp add: get_incident_duration_div monday_at_def)

lemma get_incident_urgency_critical:
  "get_incident_urgency u = ''critical alarm'' \<longleftrightarrow> u = ''high''"
  by (simp add: get_incident_urgency_def)

text \<open>The three branches of \<^const>\<open>get_hours_earned\<close> over the integers.\<close>

lemma get_hours_earned_eq:
  "get_hours_earned s e u =
     (if u \<noteq> ''high'' then 0
      else if 9 \<le> moment_hour s \<and> moment_hour s \<le> 17 \<and> moment_day s \<notin> {6, 0} then 0
      else 1 + (if moment_hour s \<le> 4 \<or> 22 \<le> moment_hour s then 1 else 0)
             + max 0 ((- (- get_incident_duration s e div 60) - 1) * 2))"
  unfolding get_hours_earned_def Let_def duration_hours_div get_incident_urgency_critical
  by (simp add: MOMENT_SATURDAY_def MOMENT_SUNDAY_def)

lemma ceil_div_bounds:
  fixes a b :: int
  assumes "0 < b"
  shows "a \<le> b * (- ((- a) div b))" and "b * (- ((- a) div b) - 1) < a"
proof -
  define q where "q = (- a) div b"
  define r where "r = (- a) mod b"
  have eq: "- a = b * q + r"
    by (simp add: q_def r_def)
  have r: "0 \<le> r" "r < b"
    using assms by (simp_all add: r_def)
  from eq r show "a \<le> b * (- ((- a) div b))" and "b * (- ((- a) div b) - 1) < a"
    unfolding q_def [symmetric] by (simp_all add: algebra_simps)
qed

section \<open>Duration of an incident\<close>

text \<open>
  Claim C8, as the code has it. The duration is the quotient of the gap in seconds by
  60, rounded up: the least number of whole minutes that covers the gap. A gap of 90
  seconds gives 2 minutes. Nothing clamps the result: it is negative when the end
  precedes the start by 60 seconds or more, and 0 when the end precedes the start by
  less than that.
\<close>

theorem incident_duration_rounds_up:
  "get_incident_duration s e = \<lceil>(of_int (Date_parse e - Date_parse s) / 1000 :: rat) / 60\<rceil>
   \<and> Date_parse e - Date_parse s \<le> 60000 * get_incident_duration s e
   \<and> 60000 * (get_incident_duration s e - 1) < Date_parse e - Date_parse s
   \<and> (Date_parse e - Date_parse s = 90000 \<longrightarrow> get_incident_duration s e = 2)
   \<and> (Date_parse e \<le> Date_parse s - 60000 \<longrightarrow> get_incident_duration s e < 0)
   \<and> (Date_parse s - 60000 < Date_parse e \<and> Date_parse e \<le> Date_parse s \<longrightarrow>
        get_incident_duration s e = 0)"
proof -
  have "get_incident_duration s e =
        \<lceil>(of_int (Date_parse e - Date_parse s) / 1000 :: rat) / 60\<rceil>"
    by (simp only: get_incident_duration_def)
  moreover have "Date_parse e - Date_parse s \<le> 60000 * get_incident_duration s e"
    unfolding get_incident_duration_div
    using ceil_div_bounds(1) [of 60000 "Date_parse e - Date_parse s"] by simp
  moreover have "60000 * (get_incident_duration s e - 1) < Date_parse e - Date_parse s"
    unfolding get_incident_duration_div
    using ceil_div_bounds(2) [of 60000 "Date_parse e - Date_parse s"] by simp
  moreover have "Date_parse e - Date_parse s = 90000 \<longrightarrow> get_incident_duration s e = 2"
    unfolding get_incident_duration_div by linarith
  moreover have "Date_parse e \<le> Date_parse s - 60000 \<longrightarrow> get_incident_duration s e < 0"
    unfolding get_incident_duration_div by linarith
  moreover have "Date_parse s - 60000 < Date_parse e \<and> Date_parse e \<le> Date_parse s \<longrightarrow>
      get_incident_duration s e = 0"
    unfolding get_incident_duration_div by linarith
  ultimately show ?thesis
    by blast
qed

text \<open>
  The theorem at a gap of 90 seconds and at an end three minutes before the start.
\<close>

theorem incident_duration_rounds_up_witness:
  "get_incident_duration (monday_at 2 0 0) (monday_at 2 1 30) = 2
   \<and> get_incident_duration (monday_at 2 3 0) (monday_at 2 0 0) < 0"
proof -
  have gap: "Date_parse (monday_at 2 1 30) - Date_parse (monday_at 2 0 0) = 90000"
    by (simp add: monday_at_def)
  have before: "Date_parse (monday_at 2 0 0) \<le> Date_parse (monday_at 2 3 0) - 60000"
    by (simp add: monday_at_def)
  from gap incident_duration_rounds_up [of "monday_at 2 0 0" "monday_at 2 1 30"]
  have "get_incident_duration (monday_at 2 0 0) (monday_at 2 1 30) = 2"
    by blast
  moreover
  from before incident_duration_rounds_up [of "monday_at 2 3 0" "monday_at 2 0 0"]
  have "get_incident_duration (monday_at 2 3 0) (monday_at 2 0 0) < 0"
    by blast
  ultimately show ?thesis
    by simp
qed

text \<open>
  Claim C8 as the specification words it asks for a negative duration whenever the end
  precedes the start. An incident whose last status change is stamped 30 seconds before
  its creation has duration 0.
\<close>

theorem incident_duration_negative_counterexample:
  "Date_parse (monday_at 2 0 0) < Date_parse (monday_at 2 0 30)
   \<and> \<not> get_incident_duration (monday_at 2 0 30) (monday_at 2 0 0) < 0"
  by (simp add: monday_duration) (simp add: monday_at_def)

section \<open>Hours earned\<close>

text \<open>
  Claim C1. A critical incident that lasts at most 60 minutes earns 0 hours when it
  starts on a weekday at an hour from 9 to 17, 2 hours when it starts at hour 4 or
  earlier or at hour 22 or later, on any day, and 1 hour for every other start.
\<close>

theorem hours_earned_first_hour:
  assumes "u = ''high''" and "get_incident_duration s e \<le> 60"
  shows "get_hours_earned s e u =
     (if moment_day s \<notin> {6, 0} \<and> 9 \<le> moment_hour s \<and> moment_hour s \<le> 17 then 0
      else if moment_hour s \<le> 4 \<or> 22 \<le> moment_hour s then 2
      else 1)"
proof -
  from assms(2) have "- (- get_incident_duration s e div 60) \<le> 1"
    by linarith
  then have "max 0 ((- (- get_incident_duration s e div 60) - 1) * 2) = 0"
    by simp
  with assms(1) show ?thesis
    by (simp add: get_hours_earned_eq)
qed

text \<open>The theorem at 40 minutes from 02:00, from 08:00 and from 10:00 on a Monday.\<close>

theorem hours_earned_first_hour_witness:
  "get_incident_duration (monday_at 2 0 0) (monday_at 2 40 0) \<le> 60
   \<and> get_hours_earned (monday_at 2 0 0) (monday_at 2 40 0) ''high'' = 2
   \<and> get_hours_earned (monday_at 8 0 0) (monday_at 8 40 0) ''high'' = 1
   \<and> get_hours_earned (monday_at 10 0 0) (monday_at 10 40 0) ''high'' = 0"
proof -
  have d2: "get_incident_duration (monday_at 2 0 0) (monday_at 2 40 0) \<le> 60"
    and d8: "get_incident_duration (monday_at 8 0 0) (monday_at 8 40 0) \<le> 60"
    and d10: "get_incident_duration (monday_at 10 0 0) (monday_at 10 40 0) \<le> 60"
    by (simp_all add: monday_duration)
  have "get_hours_earned (monday_at 2 0 0) (monday_at 2 40 0) ''high'' = 2"
    using hours_earned_first_hour [OF refl d2] by (simp add: monday_at_def)
  moreover have "get_hours_earned (monday_at 8 0 0) (monday_at 8 40 0) ''high'' = 1"
    using hours_earned_first_hour [OF refl d8] by (simp add: monday_at_def)
  moreover have "get_hours_earned (monday_at 10 0 0) (monday_at 10 40 0) ''high'' = 0"
    using hours_earned_first_hour [OF refl d10] by (simp add: monday_at_def)
  ultimately show ?thesis
    using d2 by simp
qed

text \<open>
  Claim C4. An incident whose urgency is not \<^verbatim>\<open>high\<close> does not have the label
  \<^verbatim>\<open>critical alarm\<close> and earns 0 hours, whatever its timestamps are.
\<close>

theorem hours_earned_not_critical:
  assumes "u \<noteq> ''high''"
  shows "get_incident_urgency u \<noteq> ''critical alarm'' \<and> get_hours_earned s e u = 0"
  using assms by (simp add: get_hours_earned_eq get_incident_urgency_critical)

theorem hours_earned_not_critical_witness:
  "''low'' \<noteq> ''high''
   \<and> get_incident_urgency ''low'' \<noteq> ''critical alarm''
   \<and> get_hours_earned (monday_at 2 0 0) (monday_at 4 30 0) ''low'' = 0"
proof -
  have low: "''low'' \<noteq> ''high''"
    by simp
  from hours_earned_not_critical [OF low, of "monday_at 2 0 0" "monday_at 4 30 0"] low
  show ?thesis
    by simp
qed

text \<open>
  Claim C10. Hours earned are never negative. A critical incident that starts outside
  the weekday hours 9 to 17 earns at least 1 hour; when its end precedes its start, the
  part for the duration is 0 and it earns the base hour and the late-night hour only.
\<close>

theorem hours_earned_not_negative:
  "0 \<le> get_hours_earned s e u
   \<and> (u = ''high'' \<and> \<not> (moment_day s \<notin> {6, 0} \<and> 9 \<le> moment_hour s \<and> moment_hour s \<le> 17) \<longrightarrow>
        1 \<le> get_hours_earned s e u
        \<and> (Date_parse e < Date_parse s \<longrightarrow>
             get_hours_earned s e u = (if moment_hour s \<le> 4 \<or> 22 \<le> moment_hour s then 2 else 1)))"
proof -
  define x where "x = max 0 ((- (- get_incident_duration s e div 60) - 1) * 2)"
  have hours: "get_hours_earned s e u =
     (if u \<noteq> ''high'' then 0
      else if 9 \<le> moment_hour s \<and> moment_hour s \<le> 17 \<and> moment_day s \<notin> {6, 0} then 0
      else 1 + (if moment_hour s \<le> 4 \<or> 22 \<le> moment_hour s then 1 else 0) + x)"
    unfolding x_def by (rule get_hours_earned_eq)
  have nonneg: "0 \<le> x"
    by (simp add: x_def)
  have clamp: "x = 0" if "Date_parse e < Date_parse s"
  proof -
    from that have "get_incident_duration s e \<le> 0"
      unfolding get_incident_duration_div by linarith
    then have "- (- get_incident_duration s e div 60) \<le> 1"
      by linarith
    then show ?thesis
      by (simp add: x_def)
  qed
  from nonneg clamp show ?thesis
    unfolding hours by auto
qed

text \<open>The theorem at an incident created at 02:00 whose last change is stamped 01:00.\<close>

theorem hours_earned_not_negative_witness:
  "Date_parse (monday_at 1 0 0) < Date_parse (monday_at 2 0 0)
   \<and> get_incident_duration (monday_at 2 0 0) (monday_at 1 0 0) = - 60
   \<and> get_hours_earned (monday_at 2 0 0) (monday_at 1 0 0) ''high'' = 2"
proof -
  have before: "Date_parse (monday_at 1 0 0) < Date_parse (monday_at 2 0 0)"
    by (simp add: monday_at_def)
  have off: "\<not> (moment_day (monday_at 2 0 0) \<notin> {6, 0} \<and> 9 \<le> moment_hour (monday_at 2 0 0)
               \<and> moment_hour (monday_at 2 0 0) \<le> 17)"
    by (simp add: monday_at_def)
  have "get_hours_earned (monday_at 2 0 0) (monday_at 1 0 0) ''high'' = 2"
    using hours_earned_not_negative [of "monday_at 2 0 0" "monday_at 1 0 0" "''high''"] before off
    by (simp add: monday_at_def)
  moreover have "get_incident_duration (monday_at 2 0 0) (monday_at 1 0 0) = - 60"
    by (simp add: monday_duration)
  ultimately show ?thesis
    using before by simp
qed

text \<open>
  Claim C2 asks for one more hour with each further half hour after the first hour, as
  the comment above the last increment of \<^verbatim>\<open>get_hours_earned\<close> does. The code rounds
  the duration up to whole hours before it doubles what exceeds the first: from 02:00 on
  a Monday, 60 minutes earn 2 hours, 90 minutes earn 4, and 120 minutes earn 4 again.
\<close>

theorem hours_earned_half_hour_steps:
  "get_incident_duration (monday_at 2 0 0) (monday_at 3 0 0) = 60
   \<and> get_hours_earned (monday_at 2 0 0) (monday_at 3 0 0) ''high'' = 2
   \<and> get_incident_duration (monday_at 2 0 0) (monday_at 3 30 0) = 90
   \<and> get_hours_earned (monday_at 2 0 0) (monday_at 3 30 0) ''high'' = 4
   \<and> get_incident_duration (monday_at 2 0 0) (monday_at 4 0 0) = 120
   \<and> get_hours_earned (monday_at 2 0 0) (monday_at 4 0 0) ''high'' = 4"
  by (simp add: get_hours_earned_eq monday_duration) (simp add: monday_at_def)

text \<open>
  Claim C3, for the incidents that earn hours. A critical incident that starts outside
  the weekday hours 9 to 17 and lasts at least one hour earns exactly 2 hours more when
  it lasts 60 minutes longer; one that starts on a weekday at hour 2 and lasts 150
  minutes earns 6 hours.
\<close>

theorem hours_earned_extra_hour:
  "(u = ''high''
      \<and> \<not> (moment_day s \<notin> {6, 0} \<and> 9 \<le> moment_hour s \<and> moment_hour s \<le> 17)
      \<and> 60 \<le> get_incident_duration s e
      \<and> get_incident_duration s e' = get_incident_duration s e + 60 \<longrightarrow>
    get_hours_earned s e' u = get_hours_earned s e u + 2)
   \<and> (moment_day s \<notin> {6, 0} \<and> moment_hour s = 2 \<and> get_incident_duration s e = 150 \<longrightarrow>
       get_hours_earned s e ''high'' = 6)"
proof -
  have step: "max 0 ((- (- (d + 60) div 60) - 1) * 2) = max 0 ((- (- d div 60) - 1) * 2) + 2"
    if "60 \<le> d" for d :: int
  proof -
    have "- (- (d + 60) div 60) = - (- d div 60) + 1"
      by linarith
    moreover from that have "1 \<le> - (- d div 60)"
      by linarith
    ultimately show ?thesis
      by simp
  qed
  have "get_hours_earned s e' u = get_hours_earned s e u + 2"
    if "u = ''high''"
      and "\<not> (moment_day s \<notin> {6, 0} \<and> 9 \<le> moment_hour s \<and> moment_hour s \<le> 17)"
      and "60 \<le> get_incident_duration s e"
      and "get_incident_duration s e' = get_incident_duration s e + 60"
    using that step [of "get_incident_duration s e"]
    by (simp only: get_hours_earned_eq [of s e'] get_hours_earned_eq [of s e]) auto
  moreover have "get_hours_earned s e ''high'' = 6"
    if "moment_hour s = 2" and "get_incident_duration s e = 150"
    using that by (simp add: get_hours_earned_eq)
  ultimately show ?thesis
    by blast
qed

text \<open>The theorem at 90 and at 150 minutes from 02:00 on a Monday.\<close>

theorem hours_earned_extra_hour_witness:
  "60 \<le> get_incident_duration (monday_at 2 0 0) (monday_at 3 30 0)
   \<and> get_incident_duration (monday_at 2 0 0) (monday_at 4 30 0) =
       get_incident_duration (monday_at 2 0 0) (monday_at 3 30 0) + 60
   \<and> get_hours_earned (monday_at 2 0 0) (monday_at 4 30 0) ''high'' =
       get_hours_earned (monday_at 2 0 0) (monday_at 3 30 0) ''high'' + 2
   \<and> get_hours_earned (monday_at 2 0 0) (monday_at 4 30 0) ''high'' = 6"
proof -
  have off: "\<not> (moment_day (monday_at 2 0 0) \<notin> {6, 0} \<and> 9 \<le> moment_hour (monday_at 2 0 0)
               \<and> moment_hour (monday_at 2 0 0) \<le> 17)"
    and monday: "moment_day (monday_at 2 0 0) \<notin> {6, 0}"
    and two: "moment_hour (monday_at 2 0 0) = 2"
    by (simp_all add: monday_at_def)
  have d90: "60 \<le> get_incident_duration (monday_at 2 0 0) (monday_at 3 30 0)"
    and d150: "get_incident_duration (monday_at 2 0 0) (monday_at 4 30 0) =
               get_incident_duration (monday_at 2 0 0) (monday_at 3 30 0) + 60"
    and d: "get_incident_duration (monday_at 2 0 0) (monday_at 4 30 0) = 150"
    by (simp_all add: monday_duration)
  note inst = hours_earned_extra_hour
    [of "''high''" "monday_at 2 0 0" "monday_at 3 30 0" "monday_at 4 30 0"]
  from inst off d90 d150
  have "get_hours_earned (monday_at 2 0 0) (monday_at 4 30 0) ''high'' =
        get_hours_earned (monday_at 2 0 0) (monday_at 3 30 0) ''high'' + 2"
    by blast
  moreover
  from hours_earned_extra_hour [of "''high''" "monday_at 2 0 0" "monday_at 4 30 0"] monday two d
  have "get_hours_earned (monday_at 2 0 0) (monday_at 4 30 0) ''high'' = 6"
    by blast
  ultimately show ?thesis
    using d90 d150 by blast
qed

text \<open>
  Claim C3 as the specification words it covers every critical incident. One that starts
  at 10:00 on a Monday earns nothing, whether it lasts 60 or 120 minutes.
\<close>

theorem hours_earned_extra_hour_counterexample:
  "get_incident_duration (monday_at 10 0 0) (monday_at 11 0 0) = 60
   \<and> get_incident_duration (monday_at 10 0 0) (monday_at 12 0 0) = 120
   \<and> get_hours_earned (monday_at 10 0 0) (monday_at 11 0 0) ''high'' = 0
   \<and> get_hours_earned (monday_at 10 0 0) (monday_at 12 0 0) ''high'' = 0
   \<and> get_hours_earned (monday_at 10 0 0) (monday_at 12 0 0) ''high'' \<noteq>
       get_hours_earned (monday_at 10 0 0) (monday_at 11 0 0) ''high'' + 2"
  by (simp add: get_hours_earned_eq monday_duration) (simp add: monday_at_def)

section \<open>Rows of the report\<close>

lemma for_each_eq:
  "for_each incidents rows =
     rows @ map processed_incident (filter (\<lambda>i. \<not> is_merged i) incidents)"
  by (induction incidents arbitrary: rows) simp_all

lemma process_incidents_eq:
  "process_incidents incidents =
     map processed_incident (filter (\<lambda>i. \<not> is_merged i) incidents)"
  by (simp add: process_incidents_def for_each_eq)

lemma length_filter_merged:
  "length (filter (\<lambda>i. \<not> is_merged i) incidents) + length (filter is_merged incidents) =
     length incidents"
  by (induction incidents) simp_all

lemma is_merged_iff:
  "is_merged i \<longleftrightarrow>
     map_option reason_type (resolve_reason i) = Some ''merge_resolve_reason''"
  by (simp add: is_merged_def split: option.split)

text \<open>
  Claim C6. An incident is merged when its \<^verbatim>\<open>resolve_reason\<close> is not \<^verbatim>\<open>null\<close> and
  the \<^verbatim>\<open>type\<close> of it is \<^verbatim>\<open>merge_resolve_reason\<close>. The rows are those of the incidents
  that are not merged, in the order of the input, so a merged incident has no row, and
  there are as many rows as there are incidents less the merged ones.
\<close>

theorem process_incidents_skips_merged:
  "process_incidents incidents =
     map processed_incident
       (filter (\<lambda>i. map_option reason_type (resolve_reason i) \<noteq> Some ''merge_resolve_reason'')
          incidents)
   \<and> length (process_incidents incidents)
       + length (filter
           (\<lambda>i. map_option reason_type (resolve_reason i) = Some ''merge_resolve_reason'')
           incidents) =
       length incidents
   \<and> length (process_incidents incidents) =
       length incidents
       - length (filter
           (\<lambda>i. map_option reason_type (resolve_reason i) = Some ''merge_resolve_reason'')
           incidents)"
proof -
  have merged: "is_merged =
      (\<lambda>i. map_option reason_type (resolve_reason i) = Some ''merge_resolve_reason'')"
    by (rule ext) (rule is_merged_iff)
  have rows: "process_incidents incidents =
      map processed_incident
        (filter (\<lambda>i. map_option reason_type (resolve_reason i) \<noteq> Some ''merge_resolve_reason'')
           incidents)"
    unfolding process_incidents_eq merged by (rule refl)
  have count: "length (process_incidents incidents)
      + length (filter
          (\<lambda>i. map_option reason_type (resolve_reason i) = Some ''merge_resolve_reason'')
          incidents) =
      length incidents"
    using length_filter_merged [of incidents] unfolding process_incidents_eq merged by simp
  from count have "length (process_incidents incidents) =
      length incidents
      - length (filter
          (\<lambda>i. map_option reason_type (resolve_reason i) = Some ''merge_resolve_reason'')
          incidents)"
    by linarith
  with rows count show ?thesis
    by blast
qed

text \<open>
  The theorem at three incidents of which the first and the last are merged: the one row
  is that of the second.
\<close>

theorem process_incidents_skips_merged_witness:
  "map_option reason_type (resolve_reason merged_incident) = Some ''merge_resolve_reason''
   \<and> map_option reason_type (resolve_reason example_incident) \<noteq> Some ''merge_resolve_reason''
   \<and> process_incidents [merged_incident, example_incident, merged_incident] =
       [processed_incident example_incident]
   \<and> length (process_incidents [merged_incident, example_incident, merged_incident]) = 1
   \<and> length (filter
         (\<lambda>i. map_option reason_type (resolve_reason i) = Some ''merge_resolve_reason'')
         [merged_incident, example_incident, merged_incident]) = 2"
proof -
  have merged: "map_option reason_type (resolve_reason merged_incident) =
      Some ''merge_resolve_reason''"
    by (simp add: merged_incident_def)
  have unmerged: "map_option reason_type (resolve_reason example_incident) \<noteq>
      Some ''merge_resolve_reason''"
    by (simp add: example_incident_def)
  from process_incidents_skips_merged [of "[merged_incident, example_incident, merged_incident]"]
    merged unmerged
  show ?thesis
    by simp
qed

text \<open>
  Claim C5, as the code has it. Every row has 17 fields: the resolver, the start and end
  dates, the urgency label, the hours earned, an empty field for the date of
  reconciliation, the start and end times, the duration in hours as a string, five
  empty fields, the name of the service, the title and the URL of the incident.
\<close>

theorem process_incidents_row_fields:
  assumes "row \<in> set (process_incidents incidents)"
  shows "length row = 17
   \<and> (\<exists>i \<in> set incidents. \<not> is_merged i \<and> row =
        [Str (if summary (last_status_change_by i) = summary (service i)
              then ''Auto-resolved'' else summary (last_status_change_by i)),
         Str (format_date (created_at i)),
         Str (format_date (last_status_change_at i)),
         Str (get_incident_urgency (urgency i)),
         Num (get_hours_earned (created_at i) (last_status_change_at i) (urgency i)),
         Null,
         Str (format_time (created_at i)),
         Str (format_time (last_status_change_at i)),
         Str (toFixed
                (of_int (get_incident_duration (created_at i) (last_status_change_at i)) / 60) 2),
         Null, Null, Null, Null, Null,
         Str (summary (service i)),
         Str (title i),
         Str (html_url i)])"
    (is "_ \<and> (\<exists>i \<in> _. ?fields i)")
proof -
  from assms obtain i where i: "i \<in> set incidents" "\<not> is_merged i"
    and row: "row = processed_incident i"
    unfolding process_incidents_eq by auto
  have fields: "?fields i"
    using i(2) unfolding row by (simp only: processed_incident_def Let_def simp_thms)
  have "length row = 17"
    unfolding row by (simp add: processed_incident_def Let_def)
  moreover from fields i(1) have "\<exists>i \<in> set incidents. ?fields i"
    by (rule bexI)
  ultimately show ?thesis
    by (rule conjI)
qed

text \<open>The theorem at the one row made from a merged incident followed by an unmerged one.\<close>

theorem process_incidents_row_fields_witness:
  "[Str ''Auto-resolved'', Str ''2021-03-01'', Str ''2021-03-01'', Str ''critical alarm'',
    Num 2, Null, Str ''02:00:00'', Str ''02:40:00'', Str ''0.67'',
    Null, Null, Null, Null, Null,
    Str ''Payments API'', Str ''Disk full'',
    Str ''https://example.pagerduty.com/incidents/P1'']
     \<in> set (process_incidents [merged_incident, example_incident])
   \<and> length
       [Str ''Auto-resolved'', Str ''2021-03-01'', Str ''2021-03-01'', Str ''critical alarm'',
        Num 2, Null, Str ''02:00:00'', Str ''02:40:00'', Str ''0.67'',
        Null, Null, Null, Null, Null,
        Str ''Payments API'', Str ''Disk full'',
        Str ''https://example.pagerduty.com/incidents/P1''] = 17"
proof -
  have row: "[Str ''Auto-resolved'', Str ''2021-03-01'', Str ''2021-03-01'', Str ''critical alarm'',
    Num 2, Null, Str ''02:00:00'', Str ''02:40:00'', Str ''0.67'',
    Null, Null, Null, Null, Null,
    Str ''Payments API'', Str ''Disk full'',
    Str ''https://example.pagerduty.com/incidents/P1'']
     \<in> set (process_incidents [merged_incident, example_incident])"
    by code_simp
  from process_incidents_row_fields [OF row] row show ?thesis
    by blast
qed

text \<open>
  Claim C5 as the specification words it has 16 fields with four empty ones before the
  name of the service. The row of the example incident has 17.
\<close>

theorem process_incidents_row_fields_counterexample:
  "process_incidents [example_incident] =
     [[Str ''Auto-resolved'', Str ''2021-03-01'', Str ''2021-03-01'', Str ''critical alarm'',
       Num 2, Null, Str ''02:00:00'', Str ''02:40:00'', Str ''0.67'',
       Null, Null, Null, Null, Null,
       Str ''Payments API'', Str ''Disk full'',
       Str ''https://example.pagerduty.com/incidents/P1'']]
   \<and> length (process_incidents [example_incident] ! 0) \<noteq> 16"
  by code_simp

text \<open>
  Claim C7, as the code has it. The first field of the row of an incident that is not
  merged is \<^verbatim>\<open>Auto-resolved\<close> when the summary of \<^verbatim>\<open>last_status_change_by\<close> equals
  the summary of the service, and that summary unchanged otherwise; so it is
  \<^verbatim>\<open>Auto-resolved\<close> exactly when the two summaries are equal or the first of them is
  itself \<^verbatim>\<open>Auto-resolved\<close>.
\<close>

theorem process_incidents_resolver:
  "map (\<lambda>row. row ! 0) (process_incidents incidents) =
     map (\<lambda>i. Str (if summary (last_status_change_by i) = summary (service i)
                    then ''Auto-resolved'' else summary (last_status_change_by i)))
       (filter (\<lambda>i. \<not> is_merged i) incidents)
   \<and> (processed_incident i ! 0 = Str ''Auto-resolved'' \<longleftrightarrow>
        summary (last_status_change_by i) = summary (service i)
        \<or> summary (last_status_change_by i) = ''Auto-resolved'')"
  by (simp add: process_incidents_eq processed_incident_def Let_def)

text \<open>
  Claim C7 as the specification words it makes the first field \<^verbatim>\<open>Auto-resolved\<close> only
  when the two summaries are equal. For an incident closed by a user of that name it is
  \<^verbatim>\<open>Auto-resolved\<close> although the service has another name.
\<close>

theorem process_incidents_resolver_counterexample:
  "\<not> is_merged namesake_incident
   \<and> process_incidents [namesake_incident] ! 0 ! 0 = Str ''Auto-resolved''
   \<and> summary (last_status_change_by namesake_incident) \<noteq> summary (service namesake_incident)"
  by (simp add: process_incidents_eq processed_incident_def Let_def is_merged_def
      namesake_incident_def example_incident_def)

section \<open>Retrieval of the pages\<close>

lemma while_more_pages_stop:
  "while_more_pages fetch api_key start_date limit False page_num incidents sent =
     Some (incidents, sent)"
  by (subst while_more_pages.simps) simp

lemma while_more_pages_step:
  "while_more_pages fetch api_key start_date limit True page_num incidents sent =
     while_more_pages fetch api_key start_date limit
       (page_more (fetch api_key start_date (page_num * limit) limit)) (Suc page_num)
       (incidents @ page_incidents (fetch api_key start_date (page_num * limit) limit))
       (sent @ [(page_num * limit, limit)])"
  by (subst while_more_pages.simps) (simp add: Let_def)

text \<open>
  From page \<open>n\<close> on, the loop runs up to the first page \<open>k\<close> that reports no further
  page, and returns there.
\<close>

lemma while_more_pages_run:
  assumes "n \<le> k"
    and "\<forall>j. n \<le> j \<and> j < k \<longrightarrow> page_more (fetch api_key start_date (j * limit) limit)"
    and "\<not> page_more (fetch api_key start_date (k * limit) limit)"
  shows "while_more_pages fetch api_key start_date limit True n incidents sent =
     Some (incidents @
             concat (map (\<lambda>j. page_incidents (fetch api_key start_date (j * limit) limit))
                       [n ..< Suc k]),
           sent @ map (\<lambda>j. (j * limit, limit)) [n ..< Suc k])"
  using assms
proof (induction "k - n" arbitrary: n incidents sent)
  case 0
  then have "n = k"
    by simp
  with 0 show ?case
    by (simp add: while_more_pages_step while_more_pages_stop)
next
  case (Suc d)
  then have less: "n < k"
    by simp
  with Suc.prems have more: "page_more (fetch api_key start_date (n * limit) limit)"
    by simp
  from less have upt: "[n ..< Suc k] = n # [Suc n ..< Suc k]"
    by (simp add: upt_conv_Cons)
  have "while_more_pages fetch api_key start_date limit True (Suc n)
          (incidents @ page_incidents (fetch api_key start_date (n * limit) limit))
          (sent @ [(n * limit, limit)]) =
        Some ((incidents @ page_incidents (fetch api_key start_date (n * limit) limit)) @
                concat (map (\<lambda>j. page_incidents (fetch api_key start_date (j * limit) limit))
                          [Suc n ..< Suc k]),
              (sent @ [(n * limit, limit)]) @ map (\<lambda>j. (j * limit, limit)) [Suc n ..< Suc k])"
  proof (rule Suc.hyps(1))
    from Suc.hyps(2) show "d = k - Suc n"
      by simp
    from less show "Suc n \<le> k"
      by simp
    from Suc.prems(2)
    show "\<forall>j. Suc n \<le> j \<and> j < k \<longrightarrow> page_more (fetch api_key start_date (j * limit) limit)"
      by simp
    from Suc.prems(3) show "\<not> page_more (fetch api_key start_date (k * limit) limit)" .
  qed
  moreover have "while_more_pages fetch api_key start_date limit True n incidents sent =
        while_more_pages fetch api_key start_date limit True (Suc n)
          (incidents @ page_incidents (fetch api_key start_date (n * limit) limit))
          (sent @ [(n * limit, limit)])"
    using more by (simp only: while_more_pages_step [of _ _ _ _ n] if_True simp_thms)
  ultimately show ?case
    unfolding upt by (simp del: upt_Suc)
qed

lemma map_nth_take:
  "k < length xs \<Longrightarrow> map (\<lambda>j. f (xs ! j)) [0 ..< Suc k] = map f (take (Suc k) xs)"
  by (simp add: list_eq_iff_nth_eq del: upt_Suc)

text \<open>
  Claim C9. Let the server answer the request with offset \<open>j \<cdot> 50\<close> and limit 50 with
  the page \<open>pages ! j\<close>, and let page \<open>k\<close> be the first one that reports no further page.
  Then the retriever returns; it has sent the requests with the offsets \<open>0\<close>, \<open>50\<close>, up
  to \<open>k \<cdot> 50\<close> in this order and no other; and its result is the incidents of the pages
  \<open>0\<close> to \<open>k\<close>, one page after the other as the server gave them. Three pages
  of 50, 50 and 12 incidents, the last of which alone reports no further page, give
  112 incidents.
\<close>

theorem get_incidents_pages:
  "(k < length pages
      \<and> (\<forall>j\<le>k. fetch api_key start_date (j * 50) 50 = pages ! j)
      \<and> (\<forall>j<k. page_more (pages ! j))
      \<and> \<not> page_more (pages ! k) \<longrightarrow>
    get_incidents fetch api_key start_date =
      Some (concat (map page_incidents (take (Suc k) pages)),
            map (\<lambda>j. (j * 50, 50)) [0 ..< Suc k]))
   \<and> (fetch api_key start_date 0 50 = p0
      \<and> fetch api_key start_date 50 50 = p1
      \<and> fetch api_key start_date 100 50 = p2
      \<and> page_more p0 \<and> page_more p1 \<and> \<not> page_more p2
      \<and> length (page_incidents p0) = 50
      \<and> length (page_incidents p1) = 50
      \<and> length (page_incidents p2) = 12 \<longrightarrow>
    get_incidents fetch api_key start_date =
      Some (page_incidents p0 @ page_incidents p1 @ page_incidents p2,
            [(0, 50), (50, 50), (100, 50)])
    \<and> length (page_incidents p0 @ page_incidents p1 @ page_incidents p2) = 112)"
proof -
  have general: "get_incidents fetch api_key start_date =
      Some (concat (map page_incidents (take (Suc k) pages)),
            map (\<lambda>j. (j * 50, 50)) [0 ..< Suc k])"
    if k: "k < length pages"
      and answers: "\<forall>j\<le>k. fetch api_key start_date (j * 50) 50 = pages ! j"
      and more: "\<forall>j<k. page_more (pages ! j)"
      and last: "\<not> page_more (pages ! k)"
    for k pages
  proof -
    from answers more
    have "\<forall>j. 0 \<le> j \<and> j < k \<longrightarrow> page_more (fetch api_key start_date (j * 50) 50)"
      by simp
    moreover from answers last have "\<not> page_more (fetch api_key start_date (k * 50) 50)"
      by simp
    ultimately have "while_more_pages fetch api_key start_date 50 True 0 [] [] =
        Some ([] @ concat (map (\<lambda>j. page_incidents (fetch api_key start_date (j * 50) 50))
                             [0 ..< Suc k]),
              [] @ map (\<lambda>j. (j * 50, 50)) [0 ..< Suc k])"
      by (intro while_more_pages_run) simp_all
    moreover from answers
    have "map (\<lambda>j. page_incidents (fetch api_key start_date (j * 50) 50)) [0 ..< Suc k] =
          map (\<lambda>j. page_incidents (pages ! j)) [0 ..< Suc k]"
      by (simp del: upt_Suc)
    ultimately show ?thesis
      using k by (simp add: get_incidents_def map_nth_take del: upt_Suc)
  qed
  have "get_incidents fetch api_key start_date =
      Some (page_incidents p0 @ page_incidents p1 @ page_incidents p2,
            [(0, 50), (50, 50), (100, 50)])"
    if "fetch api_key start_date 0 50 = p0" "fetch api_key start_date 50 50 = p1"
      "fetch api_key start_date 100 50 = p2" "page_more p0" "page_more p1" "\<not> page_more p2"
  proof -
    have "\<forall>j\<le>2. fetch api_key start_date (j * 50) 50 = [p0, p1, p2] ! j"
    proof (intro allI impI)
      fix j :: nat
      assume "j \<le> 2"
      then consider "j = 0" | "j = 1" | "j = 2"
        by linarith
      then show "fetch api_key start_date (j * 50) 50 = [p0, p1, p2] ! j"
        using that by cases simp_all
    qed
    moreover have "\<forall>j<2. page_more ([p0, p1, p2] ! j)"
      using that by (simp add: less_Suc_eq numeral_2_eq_2)
    moreover have "\<not> page_more ([p0, p1, p2] ! 2)"
      using that by simp
    ultimately have "get_incidents fetch api_key start_date =
        Some (concat (map page_incidents (take (Suc 2) [p0, p1, p2])),
              map (\<lambda>j. (j * 50, 50)) [0 ..< Suc 2])"
      by (intro general) simp_all
    then show ?thesis
      by (simp add: numeral_2_eq_2)
  qed
  with general show ?thesis
    by simp
qed

text \<open>The theorem at a server that holds 112 incidents.\<close>

theorem get_incidents_pages_witness:
  "page_more (three_pages () () 0 50) \<and> page_more (three_pages () () 50 50)
   \<and> \<not> page_more (three_pages () () 100 50)
   \<and> length (page_incidents (three_pages () () 0 50)) = 50
   \<and> length (page_incidents (three_pages () () 50 50)) = 50
   \<and> length (page_incidents (three_pages () () 100 50)) = 12
   \<and> get_incidents three_pages () () =
       Some ([0 ..< 50] @ [50 ..< 100] @ [100 ..< 112], [(0, 50), (50, 50), (100, 50)])
   \<and> get_incidents three_pages () () =
       Some (concat (map page_incidents
                      (take (Suc 2)
                         [three_pages () () 0 50, three_pages () () 50 50,
                          three_pages () () 100 50])),
             map (\<lambda>j. (j * 50, 50)) [0 ..< Suc 2])"
proof -
  let ?p0 = "three_pages () () 0 50"
  let ?p1 = "three_pages () () 50 50"
  let ?p2 = "three_pages () () 100 50"
  have pages: "page_more ?p0" "page_more ?p1" "\<not> page_more ?p2"
    "length (page_incidents ?p0) = 50" "length (page_incidents ?p1) = 50"
    "length (page_incidents ?p2) = 12"
    by (simp_all add: three_pages_def)
  have "get_incidents three_pages () () =
      Some (page_incidents ?p0 @ page_incidents ?p1 @ page_incidents ?p2,
            [(0, 50), (50, 50), (100, 50)])"
    using get_incidents_pages [of _ _ three_pages "()" "()" ?p0 ?p1 ?p2] pages
    by blast
  then have example: "get_incidents three_pages () () =
      Some ([0 ..< 50] @ [50 ..< 100] @ [100 ..< 112], [(0, 50), (50, 50), (100, 50)])"
    by (simp add: three_pages_def)
  have k: "2 < length [?p0, ?p1, ?p2]"
    by simp
  have answers: "\<forall>j\<le>2. three_pages () () (j * 50) 50 = [?p0, ?p1, ?p2] ! j"
  proof (intro allI impI)
    fix j :: nat
    assume "j \<le> 2"
    then consider "j = 0" | "j = 1" | "j = 2"
      by linarith
    then show "three_pages () () (j * 50) 50 = [?p0, ?p1, ?p2] ! j"
      by cases simp_all
  qed
  have more: "\<forall>j<2. page_more ([?p0, ?p1, ?p2] ! j)"
    using pages by (simp add: less_Suc_eq numeral_2_eq_2)
  have last: "\<not> page_more ([?p0, ?p1, ?p2] ! 2)"
    using pages by simp
  have "get_incidents three_pages () () =
      Some (concat (map page_incidents (take (Suc 2) [?p0, ?p1, ?p2])),
            map (\<lambda>j. (j * 50, 50)) [0 ..< Suc 2])"
    using get_incidents_pages [of 2 "[?p0, ?p1, ?p2]" three_pages "()" "()"]
      k answers more last
    by blast
  with example pages show ?thesis
    by blast
qed

end
